theory Spec2Isabelle
  imports Complex_Main "HOL-Library.Log_Nat"
begin

section \<open>Python values and exceptions\<close>

text \<open>
  The exceptions that the code of \<^verbatim>\<open>userMigrationDash.py\<close> can meet. \<open>MySQLError\<close>
  stands for the errors of the \<^verbatim>\<open>pymysql\<close> driver (the specification calls them
  \<open>RepositoryError\<close>). \<open>JSONDecodeError\<close> is a subclass of \<open>ValueError\<close> in Python;
  the \<^verbatim>\<open>except\<close> clause of the source names both.
\<close>

datatype exn =
    JSONDecodeError
  | ValueError
  | KeyError
  | AttributeError
  | TypeError
  | ZeroDivisionError
  | FileNotFoundError
  | UnboundLocalError
  | MySQLError

text \<open>
  What \<^verbatim>\<open>json.load\<close> returns and \<^verbatim>\<open>json.dump\<close> accepts. A Python \<^verbatim>\<open>dict\<close> is an
  association list in insertion order; a \<^verbatim>\<open>float\<close> is the rational number it denotes.
\<close>

datatype json =
    JNull
  | JBool bool
  | JInt int
  | JFloat rat
  | JStr string
  | JArr "json list"
  | JObj "(string \<times> json) list"

text \<open>
  A \<^verbatim>\<open>datetime\<close>: microseconds on the wall clock since a fixed origin, and for an aware
  value its offset from UTC in microseconds. \<^verbatim>\<open>datetime.now()\<close> is naive.
\<close>

datatype datetime = Naive int | Aware int int

section \<open>Library functions\<close>

text \<open>
  The parsers and printers of the standard library that the code calls are parameters of
  the model: \<^verbatim>\<open>json.load\<close> (\<open>None\<close> when it raises \<^verbatim>\<open>JSONDecodeError\<close>),
  \<^verbatim>\<open>json.dump\<close>, \<^verbatim>\<open>datetime.fromisoformat\<close> on a string (\<open>None\<close> when it raises
  \<^verbatim>\<open>ValueError\<close>) and \<^verbatim>\<open>datetime.isoformat\<close>.
\<close>

record pylib =
  json_loads :: "string \<Rightarrow> json option"
  json_dumps :: "json \<Rightarrow> string"
  fromisoformat :: "string \<Rightarrow> datetime option"
  isoformat :: "datetime \<Rightarrow> string"

subsection \<open>Floating point\<close>

text \<open>
  A Python \<^verbatim>\<open>float\<close> is an IEEE 754 binary64 number. \<open>binary64 x\<close> is the number of 53
  significant bits nearest to \<open>x\<close>, ties to even; the exponent range is not bounded, so
  the model is exact wherever the result is a normal number (quotients and products of
  64-bit counts are).
\<close>

definition pow2 :: "int \<Rightarrow> rat" where
  "pow2 k = (if 0 \<le> k then 2 ^ nat k else 1 / 2 ^ nat (- k))"

definition ilog2 :: "rat \<Rightarrow> int" where
  "ilog2 x = (case quotient_of x of (p, q) \<Rightarrow>
     (let k = bitlen p - bitlen q in if pow2 k \<le> x then k else k - 1))"

definition round_half_even :: "rat \<Rightarrow> int" where
  "round_half_even x = (let f = \<lfloor>x\<rfloor>; d = x - of_int f in
     if d < 1 / 2 then f else if 1 / 2 < d then f + 1 else if even f then f else f + 1)"

definition binary64 :: "rat \<Rightarrow> rat" where
  "binary64 x = (if x = 0 then 0
     else (let e = ilog2 \<bar>x\<bar> - 52 in of_int (round_half_even (x / pow2 e)) * pow2 e))"

text \<open>\<^verbatim>\<open>a / b\<close> on two \<^verbatim>\<open>int\<close>s: the correctly rounded quotient, or \<^verbatim>\<open>ZeroDivisionError\<close>.\<close>

definition py_truediv :: "int \<Rightarrow> int \<Rightarrow> exn + rat" where
  "py_truediv a b =
     (if b = 0 then Inl ZeroDivisionError else Inr (binary64 (of_int a / of_int b)))"

text \<open>\<^verbatim>\<open>x * n\<close> for a \<^verbatim>\<open>float\<close> and an \<^verbatim>\<open>int\<close>: the \<^verbatim>\<open>int\<close> is converted first.\<close>

definition py_mul :: "rat \<Rightarrow> int \<Rightarrow> rat" where
  "py_mul x n = binary64 (x * binary64 (of_int n))"

text \<open>
  \<^verbatim>\<open>round(x, ndigits)\<close> on a \<^verbatim>\<open>float\<close>: the decimal of \<open>ndigits\<close> places nearest to the
  exact value of \<open>x\<close>, ties to even, converted back to a \<^verbatim>\<open>float\<close>.
\<close>

definition py_round :: "rat \<Rightarrow> nat \<Rightarrow> rat" where
  "py_round x ndigits =
     binary64 (of_int (round_half_even (x * 10 ^ ndigits)) / 10 ^ ndigits)"

subsection \<open>Dictionaries and timestamps\<close>

text \<open>
  \<^verbatim>\<open>cache.get(key, default)\<close>: only a \<^verbatim>\<open>dict\<close> has the method; on any other JSON value
  the attribute lookup raises \<^verbatim>\<open>AttributeError\<close>.
\<close>

definition py_get :: "json \<Rightarrow> string \<Rightarrow> json \<Rightarrow> exn + json" where
  "py_get v key dflt =
     (case v of
        JObj kvs \<Rightarrow> Inr (case map_of kvs key of None \<Rightarrow> dflt | Some x \<Rightarrow> x)
      | _ \<Rightarrow> Inl AttributeError)"

text \<open>
  \<^verbatim>\<open>datetime.fromisoformat(v)\<close>: \<^verbatim>\<open>TypeError\<close> unless \<open>v\<close> is a \<^verbatim>\<open>str\<close>, \<^verbatim>\<open>ValueError\<close>
  when the string is not in ISO format.
\<close>

definition datetime_fromisoformat :: "pylib \<Rightarrow> json \<Rightarrow> exn + datetime" where
  "datetime_fromisoformat L v =
     (case v of
        JStr s \<Rightarrow> (case fromisoformat L s of None \<Rightarrow> Inl ValueError | Some d \<Rightarrow> Inr d)
      | _ \<Rightarrow> Inl TypeError)"

text \<open>
  \<^verbatim>\<open>a - b\<close> on two \<^verbatim>\<open>datetime\<close>s, as a \<^verbatim>\<open>timedelta\<close> in microseconds: a naive and an
  aware value cannot be subtracted (\<^verbatim>\<open>TypeError\<close>).
\<close>

fun datetime_sub :: "datetime \<Rightarrow> datetime \<Rightarrow> exn + int" where
  "datetime_sub (Naive a) (Naive b) = Inr (a - b)"
| "datetime_sub (Aware a oa) (Aware b ob) = Inr ((a - oa) - (b - ob))"
| "datetime_sub (Naive a) (Aware b ob) = Inl TypeError"
| "datetime_sub (Aware a oa) (Naive b) = Inl TypeError"

text \<open>\<^verbatim>\<open>timedelta.total_seconds()\<close>: the microseconds divided by \<open>10\<^sup>6\<close>, as a \<^verbatim>\<open>float\<close>.\<close>

definition total_seconds :: "int \<Rightarrow> rat" where
  "total_seconds td = binary64 (of_int td / 1000000)"

section \<open>The world: cache file, clock and database driver\<close>

datatype query = CountTotal | CountMigrated | HourlySeries | DailySeries

datatype db_event = Connect | OpenCursor | Execute query | CloseCursor | CloseConnection

text \<open>
  \<open>cache_file\<close> is the content of \<^verbatim>\<open>migration_stats_cache.json\<close> (\<open>None\<close> when the file does
  not exist), \<open>clock\<close> the wall clock in microseconds, \<open>open_conns\<close> and \<open>open_cursors\<close> count
  the connections and cursors not yet closed, \<open>db_log\<close> records every call to the driver.
\<close>

record world =
  cache_file :: "string option"
  clock :: int
  open_conns :: nat
  open_cursors :: nat
  db_log :: "db_event list"

definition os_path_exists :: "world \<Rightarrow> bool" where
  "os_path_exists w = (cache_file w \<noteq> None)"

definition read_cache_file :: "world \<Rightarrow> (exn + string) \<times> world" where
  "read_cache_file w =
     (case cache_file w of None \<Rightarrow> (Inl FileNotFoundError, w) | Some c \<Rightarrow> (Inr c, w))"

definition write_cache_file :: "string \<Rightarrow> world \<Rightarrow> world" where
  "write_cache_file c w = w\<lparr>cache_file := Some c\<rparr>"

definition datetime_now :: "world \<Rightarrow> datetime" where
  "datetime_now w = Naive (clock w)"

section \<open>MigrationStats\<close>

definition cache_duration :: int where
  "cache_duration = 300"

text \<open>
  The \<^verbatim>\<open>try\<close> block of \<^verbatim>\<open>should_update_cache\<close>: read and parse the file, take
  \<^verbatim>\<open>last_update\<close> (the empty string when the key is missing), parse it, compare the
  elapsed seconds with \<open>cache_duration\<close>.
\<close>

definition cache_age_exceeded :: "pylib \<Rightarrow> world \<Rightarrow> (exn + bool) \<times> world" where
  "cache_age_exceeded L w =
     (case read_cache_file w of
        (Inl e, w1) \<Rightarrow> (Inl e, w1)
      | (Inr c, w1) \<Rightarrow>
         (case json_loads L c of
            None \<Rightarrow> (Inl JSONDecodeError, w1)
          | Some cache \<Rightarrow>
             (case py_get cache ''last_update'' (JStr []) of
                Inl e \<Rightarrow> (Inl e, w1)
              | Inr v \<Rightarrow>
                 (case datetime_fromisoformat L v of
                    Inl e \<Rightarrow> (Inl e, w1)
                  | Inr last_update \<Rightarrow>
                     (case datetime_sub (datetime_now w1) last_update of
                        Inl e \<Rightarrow> (Inl e, w1)
                      | Inr td \<Rightarrow> (Inr (of_int cache_duration < total_seconds td), w1))))))"

text \<open>The exceptions of \<^verbatim>\<open>except (json.JSONDecodeError, ValueError, KeyError)\<close>.\<close>

definition caught :: "exn \<Rightarrow> bool" where
  "caught e = (e = JSONDecodeError \<or> e = ValueError \<or> e = KeyError)"

definition should_update_cache :: "pylib \<Rightarrow> world \<Rightarrow> (exn + bool) \<times> world" where
  "should_update_cache L w =
     (if \<not> os_path_exists w then (Inr True, w)
      else (case cache_age_exceeded L w of
              (Inl e, w1) \<Rightarrow> if caught e then (Inr True, w1) else (Inl e, w1)
            | (Inr b, w1) \<Rightarrow> (Inr b, w1)))"

subsection \<open>The database\<close>

text \<open>
  The \<^verbatim>\<open>users\<close> table with the columns the queries read. The two \<^verbatim>\<open>COUNT(*)\<close> queries are
  evaluated on the rows; the result sets of the two \<^verbatim>\<open>GROUP BY\<close> queries are what the
  server returns for them (\<^verbatim>\<open>DATE_FORMAT\<close> yields a string, \<^verbatim>\<open>DATE\<close> a \<^verbatim>\<open>datetime.date\<close>).
  \<open>connect_fails\<close> and \<open>failing_queries\<close> say which calls to the driver raise.
\<close>

record user =
  cm_firebase_token :: "string option"
  updated_at :: int

record date =
  year :: nat
  month :: nat
  day :: nat

record database =
  users :: "user list"
  hourly_rows :: "(string \<times> int) list"
  daily_rows :: "(date \<times> int) list"
  connect_fails :: bool
  failing_queries :: "query set"

text \<open>\<^verbatim>\<open>pymysql.connect(...)\<close>.\<close>

definition get_db_connection :: "database \<Rightarrow> world \<Rightarrow> (exn + unit) \<times> world" where
  "get_db_connection db w =
     (let w1 = w\<lparr>db_log := db_log w @ [Connect]\<rparr> in
      if connect_fails db then (Inl MySQLError, w1)
      else (Inr (), w1\<lparr>open_conns := Suc (open_conns w1)\<rparr>))"

definition conn_cursor :: "world \<Rightarrow> world" where
  "conn_cursor w = w\<lparr>open_cursors := Suc (open_cursors w), db_log := db_log w @ [OpenCursor]\<rparr>"

definition cursor_execute :: "database \<Rightarrow> query \<Rightarrow> world \<Rightarrow> (exn + unit) \<times> world" where
  "cursor_execute db q w =
     (let w1 = w\<lparr>db_log := db_log w @ [Execute q]\<rparr> in
      if q \<in> failing_queries db then (Inl MySQLError, w1) else (Inr (), w1))"

definition cursor_close :: "world \<Rightarrow> world" where
  "cursor_close w = w\<lparr>open_cursors := open_cursors w - 1, db_log := db_log w @ [CloseCursor]\<rparr>"

definition conn_close :: "world \<Rightarrow> world" where
  "conn_close w = w\<lparr>open_conns := open_conns w - 1, db_log := db_log w @ [CloseConnection]\<rparr>"

text \<open>\<^verbatim>\<open>SELECT COUNT(*) as total FROM users\<close>, then \<^verbatim>\<open>fetchone()['total']\<close>.\<close>

definition count_total :: "database \<Rightarrow> int" where
  "count_total db = int (length (users db))"

text \<open>\<^verbatim>\<open>SELECT COUNT(*) as migrated FROM users WHERE cm_firebase_token IS NOT NULL\<close>.\<close>

definition count_migrated :: "database \<Rightarrow> int" where
  "count_migrated db = int (length (filter (\<lambda>u. cm_firebase_token u \<noteq> None) (users db)))"

text \<open>\<^verbatim>\<open>str(d)\<close> for a \<^verbatim>\<open>datetime.date\<close>: \<^verbatim>\<open>YYYY-MM-DD\<close>, zero padded.\<close>

definition digit :: "nat \<Rightarrow> char" where
  "digit n = char_of (48 + n mod 10)"

definition date_str :: "date \<Rightarrow> string" where
  "date_str d =
     [digit (year d div 1000), digit (year d div 100), digit (year d div 10), digit (year d),
      CHR ''-'', digit (month d div 10), digit (month d),
      CHR ''-'', digit (day d div 10), digit (day d)]"

text \<open>\<^verbatim>\<open>{**item, 'hour': str(item['hour'])}\<close> and \<^verbatim>\<open>{**item, 'date': str(item['date'])}\<close>.\<close>

definition hourly_item :: "string \<times> int \<Rightarrow> json" where
  "hourly_item item = JObj [(''hour'', JStr (fst item)), (''count'', JInt (snd item))]"

definition daily_item :: "date \<times> int \<Rightarrow> json" where
  "daily_item item = JObj [(''date'', JStr (date_str (fst item))), (''count'', JInt (snd item))]"

subsection \<open>get\_migration\_stats\<close>

text \<open>The expression of \<^verbatim>\<open>'migration_rate'\<close>.\<close>

definition migration_rate :: "int \<Rightarrow> int \<Rightarrow> exn + json" where
  "migration_rate migrated_users total_users =
     (if 0 < total_users
      then (case py_truediv migrated_users total_users of
              Inl e \<Rightarrow> Inl e
            | Inr q \<Rightarrow> Inr (JFloat (py_round (py_mul q 100) 2)))
      else Inr (JInt 0))"

text \<open>The dictionary \<^verbatim>\<open>stats\<close>.\<close>

definition make_stats ::
  "pylib \<Rightarrow> int \<Rightarrow> int \<Rightarrow> json list \<Rightarrow> json list \<Rightarrow> datetime \<Rightarrow> exn + json" where
  "make_stats L total_users migrated_users hourly_data daily_data now =
     (case migration_rate migrated_users total_users of
        Inl e \<Rightarrow> Inl e
      | Inr rate \<Rightarrow>
          Inr (JObj [(''total_users'', JInt total_users),
                     (''migrated_users'', JInt migrated_users),
                     (''pending_users'', JInt (total_users - migrated_users)),
                     (''migration_rate'', rate),
                     (''hourly_data'', JArr hourly_data),
                     (''daily_data'', JArr daily_data),
                     (''last_update'', JStr (isoformat L now))]))"

text \<open>
  The \<^verbatim>\<open>try\<close> block after the cursor is made: the four queries in order, the dictionary,
  the write of the cache file. The first exception ends it.
\<close>

definition fetch_and_store :: "pylib \<Rightarrow> database \<Rightarrow> world \<Rightarrow> (exn + json) \<times> world" where
  "fetch_and_store L db w =
     (case cursor_execute db CountTotal w of
        (Inl e, w1) \<Rightarrow> (Inl e, w1)
      | (Inr _, w1) \<Rightarrow>
     (case cursor_execute db CountMigrated w1 of
        (Inl e, w2) \<Rightarrow> (Inl e, w2)
      | (Inr _, w2) \<Rightarrow>
     (case cursor_execute db HourlySeries w2 of
        (Inl e, w3) \<Rightarrow> (Inl e, w3)
      | (Inr _, w3) \<Rightarrow>
     (case cursor_execute db DailySeries w3 of
        (Inl e, w4) \<Rightarrow> (Inl e, w4)
      | (Inr _, w4) \<Rightarrow>
     (case make_stats L (count_total db) (count_migrated db)
             (map hourly_item (hourly_rows db)) (map daily_item (daily_rows db))
             (datetime_now w4) of
        Inl e \<Rightarrow> (Inl e, w4)
      | Inr stats \<Rightarrow> (Inr stats, write_cache_file (json_dumps L stats) w4))))))"

text \<open>
  The local variables \<^verbatim>\<open>conn\<close> and \<^verbatim>\<open>cursor\<close> of \<^verbatim>\<open>get_migration_stats\<close>: bound or not
  when the \<^verbatim>\<open>finally\<close> block runs.
\<close>

record frame =
  conn_bound :: bool
  cursor_bound :: bool

text \<open>The whole \<^verbatim>\<open>try\<close> block: its outcome, the local variables and the world it leaves.\<close>

definition try_block ::
  "pylib \<Rightarrow> database \<Rightarrow> world \<Rightarrow> (exn + json) \<times> frame \<times> world" where
  "try_block L db w =
     (case get_db_connection db w of
        (Inl e, w1) \<Rightarrow> (Inl e, \<lparr>conn_bound = False, cursor_bound = False\<rparr>, w1)
      | (Inr _, w1) \<Rightarrow>
          (case fetch_and_store L db (conn_cursor w1) of
             (r, w2) \<Rightarrow> (r, \<lparr>conn_bound = True, cursor_bound = True\<rparr>, w2)))"

text \<open>
  The \<^verbatim>\<open>finally\<close> block: \<^verbatim>\<open>cursor.close()\<close>, then \<^verbatim>\<open>conn.close()\<close>. Reading a local
  variable that was never assigned raises \<^verbatim>\<open>UnboundLocalError\<close>.
\<close>

definition finally_block :: "frame \<Rightarrow> world \<Rightarrow> (exn + unit) \<times> world" where
  "finally_block fr w =
     (if \<not> cursor_bound fr then (Inl UnboundLocalError, w)
      else (let w1 = cursor_close w in
            if \<not> conn_bound fr then (Inl UnboundLocalError, w1)
            else (Inr (), conn_close w1)))"

text \<open>
  The cache hit: \<^verbatim>\<open>with open(self.cache_file, 'r') as f: return json.load(f)\<close>.
\<close>

definition load_cache :: "pylib \<Rightarrow> world \<Rightarrow> (exn + json) \<times> world" where
  "load_cache L w =
     (case read_cache_file w of
        (Inl e, w1) \<Rightarrow> (Inl e, w1)
      | (Inr c, w1) \<Rightarrow>
          (case json_loads L c of
             None \<Rightarrow> (Inl JSONDecodeError, w1)
           | Some v \<Rightarrow> (Inr v, w1)))"

text \<open>
  \<^verbatim>\<open>get_migration_stats\<close>. An exception of the \<^verbatim>\<open>finally\<close> block replaces the outcome of
  the \<^verbatim>\<open>try\<close> block; otherwise that outcome (the value returned or the exception raised)
  stands.
\<close>

definition get_migration_stats ::
  "pylib \<Rightarrow> database \<Rightarrow> world \<Rightarrow> (exn + json) \<times> world" where
  "get_migration_stats L db w =
     (case should_update_cache L w of
        (Inl e, w1) \<Rightarrow> (Inl e, w1)
      | (Inr stale, w1) \<Rightarrow>
          if \<not> stale then load_cache L w1
          else (case try_block L db w1 of
                  (r, fr, w2) \<Rightarrow>
                    (case finally_block fr w2 of
                       (Inl e, w3) \<Rightarrow> (Inl e, w3)
                     | (Inr _, w3) \<Rightarrow> (r, w3))))"

section \<open>A library instance and sample inputs\<close>

text \<open>
  An instance of the library parameters that knows the JSON texts and the timestamps
  below and no other: the models are evaluated on it. Each pair is what Python's
  \<^verbatim>\<open>json.loads\<close> (resp. \<^verbatim>\<open>datetime.fromisoformat\<close>) returns for the text; the origin of the
  clock is noon of 2024-01-01.
\<close>

definition sample_stats :: json where
  "sample_stats =
     JObj [(''total_users'', JInt 4),
           (''migrated_users'', JInt 1),
           (''pending_users'', JInt 3),
           (''migration_rate'', JFloat 25),
           (''hourly_data'', JArr [JObj [(''hour'', JStr ''2024-01-01 11:00:00''), (''count'', JInt 1)]]),
           (''daily_data'', JArr [JObj [(''date'', JStr ''2024-01-01''), (''count'', JInt 1)]]),
           (''last_update'', JStr ''2024-01-01T12:00:00'')]"

definition sample_json :: "(string \<times> json) list" where
  \<open>sample_json =
     [(''{"last_update": 5}'', JObj [(''last_update'', JInt 5)]),
      (''[]'', JArr []),
      (''{}'', JObj []),
      (''{"last_update": "yesterday"}'', JObj [(''last_update'', JStr ''yesterday'')]),
      (''{"last_update": "2024-01-01T12:00:00+00:00"}'',
         JObj [(''last_update'', JStr ''2024-01-01T12:00:00+00:00'')]),
      (''{"last_update": "2024-01-01T12:00:00"}'',
         JObj [(''last_update'', JStr ''2024-01-01T12:00:00'')]),
      (''{"total_users": 4, "migrated_users": 1, "pending_users": 3, "migration_rate": 25.0, "hourly_data": [{"hour": "2024-01-01 11:00:00", "count": 1}], "daily_data": [{"date": "2024-01-01", "count": 1}], "last_update": "2024-01-01T12:00:00"}'',
         sample_stats)]\<close>

definition sample_timestamps :: "(string \<times> datetime) list" where
  "sample_timestamps =
     [(''2024-01-01T12:00:00'', Naive 0),
      (''2024-01-01T12:00:00+00:00'', Aware 0 0)]"

definition sample_lib :: pylib where
  "sample_lib =
     \<lparr>json_loads = map_of sample_json,
      json_dumps = (\<lambda>v. case map_of (map prod.swap sample_json) v of None \<Rightarrow> [] | Some t \<Rightarrow> t),
      fromisoformat = map_of sample_timestamps,
      isoformat = (\<lambda>d. case map_of (map prod.swap sample_timestamps) d of None \<Rightarrow> [] | Some s \<Rightarrow> s)\<rparr>"

definition sample_world :: "string option \<Rightarrow> int \<Rightarrow> world" where
  "sample_world file now =
     \<lparr>cache_file = file, clock = now, open_conns = 0, open_cursors = 0, db_log = []\<rparr>"

definition sample_db :: database where
  "sample_db =
     \<lparr>users = [\<lparr>cm_firebase_token = Some ''t0k3n'', updated_at = - 3000000000\<rparr>,
               \<lparr>cm_firebase_token = None, updated_at = - 5000000000\<rparr>,
               \<lparr>cm_firebase_token = None, updated_at = - 7000000000\<rparr>,
               \<lparr>cm_firebase_token = None, updated_at = - 9000000000\<rparr>],
      hourly_rows = [(''2024-01-01 11:00:00'', 1)],
      daily_rows = [(\<lparr>year = 2024, month = 1, day = 1\<rparr>, 1)],
      connect_fails = False,
      failing_queries = {}\<rparr>"

section \<open>Rounding to binary64\<close>

text \<open>
  What the proofs need of the floating-point model: \<open>binary64\<close> lowers a positive number by
  at most one part in \<open>2 ^ 53\<close>, and it rounds no number up to 300 past 300. So comparing
  \<^verbatim>\<open>total_seconds()\<close> with \<open>cache_duration\<close> is comparing the microseconds with
  300 000 000.
\<close>

lemma pow2_powi: "pow2 k = 2 powi k"
  by (simp add: pow2_def power_int_def inverse_eq_divide power_one_over)

lemma pow2_pos: "0 < pow2 k"
  by (simp add: pow2_powi)

lemma pow2_add: "pow2 (a + b) = pow2 a * pow2 b"
  by (simp add: pow2_powi power_int_add)

lemma pow2_less_iff: "pow2 a < pow2 b \<longleftrightarrow> a < b"
proof
  assume "pow2 a < pow2 b"
  show "a < b"
  proof (rule ccontr)
    assume "\<not> a < b"
    then have "b \<le> a" by simp
    then have "pow2 b \<le> pow2 a"
      unfolding pow2_powi by (intro power_int_increasing) auto
    with \<open>pow2 a < pow2 b\<close> show False by simp
  qed
next
  assume "a < b"
  then show "pow2 a < pow2 b"
    unfolding pow2_powi by (intro power_int_strict_increasing) auto
qed

lemma ilog2_bounds:
  assumes "0 < x"
  shows "pow2 (ilog2 x) \<le> x" and "x < pow2 (ilog2 x + 1)"
proof -
  obtain p q where pq: "quotient_of x = (p, q)" by (cases "quotient_of x")
  have q: "0 < q" using pq by (rule quotient_of_denom_pos)
  have x: "x = of_int p / of_int q" using pq by (rule quotient_of_div)
  have p: "0 < p" using assms q by (simp add: x zero_less_divide_iff)
  define bp where "bp = bitlen p"
  define bq where "bq = bitlen q"
  have bp1: "1 \<le> bp" using p by (simp add: bp_def bitlen_alt_def)
  have bq1: "1 \<le> bq" using q by (simp add: bq_def bitlen_alt_def)
  have pb: "2 ^ nat (bp - 1) \<le> p" "p < 2 ^ nat bp"
    using bitlen_bounds [OF p] by (simp_all add: bp_def)
  have qb: "2 ^ nat (bq - 1) \<le> q" "q < 2 ^ nat bq"
    using bitlen_bounds [OF q] by (simp_all add: bq_def)
  have P1: "pow2 (bp - 1) \<le> of_int p"
  proof -
    have "(of_int (2 ^ nat (bp - 1)) :: rat) \<le> of_int p" using pb(1) by (simp only: of_int_le_iff)
    then show ?thesis using bp1 by (simp add: pow2_def)
  qed
  have P2: "of_int p < pow2 bp"
  proof -
    have "(of_int p :: rat) < of_int (2 ^ nat bp)" using pb(2) by (simp only: of_int_less_iff)
    then show ?thesis using bp1 by (simp add: pow2_def)
  qed
  have Q1: "pow2 (bq - 1) \<le> of_int q"
  proof -
    have "(of_int (2 ^ nat (bq - 1)) :: rat) \<le> of_int q" using qb(1) by (simp only: of_int_le_iff)
    then show ?thesis using bq1 by (simp add: pow2_def)
  qed
  have Q2: "of_int q < pow2 bq"
  proof -
    have "(of_int q :: rat) < of_int (2 ^ nat bq)" using qb(2) by (simp only: of_int_less_iff)
    then show ?thesis using bq1 by (simp add: pow2_def)
  qed
  have qr: "(0::rat) < of_int q" using q by simp
  have lo: "pow2 (bp - bq - 1) < x"
  proof -
    have "pow2 (bp - bq - 1) * of_int q < pow2 (bp - bq - 1) * pow2 bq"
      using Q2 pow2_pos by (simp add: mult_strict_left_mono)
    also have "\<dots> = pow2 (bp - 1)" by (simp add: pow2_add [symmetric])
    also have "\<dots> \<le> of_int p" by (rule P1)
    finally show ?thesis using qr by (simp add: x pos_less_divide_eq)
  qed
  have hi: "x < pow2 (bp - bq + 1)"
  proof -
    have "of_int p < pow2 bp" by (rule P2)
    also have "\<dots> = pow2 (bp - bq + 1) * pow2 (bq - 1)" by (simp add: pow2_add [symmetric])
    also have "\<dots> \<le> pow2 (bp - bq + 1) * of_int q"
      using Q1 pow2_pos [of "bp - bq + 1"] by (simp add: mult_left_mono)
    finally show ?thesis using qr by (simp add: x pos_divide_less_eq)
  qed
  have il: "ilog2 x = (if pow2 (bp - bq) \<le> x then bp - bq else bp - bq - 1)"
    by (simp add: ilog2_def pq bp_def bq_def Let_def)
  show "pow2 (ilog2 x) \<le> x" using lo by (simp add: il)
  show "x < pow2 (ilog2 x + 1)" using hi by (auto simp: il not_le)
qed

lemma round_half_even_lower: "x - 1 / 2 \<le> of_int (round_half_even x)"
  unfolding round_half_even_def Let_def by (auto; linarith)

lemma round_half_even_le_int: "x \<le> of_int n \<Longrightarrow> round_half_even x \<le> n"
proof -
  assume a: "x \<le> of_int n"
  show ?thesis
  proof (cases "x = of_int n")
    case True
    then show ?thesis by (simp add: round_half_even_def)
  next
    case False
    then have "x < of_int n" using a by simp
    then have "\<lfloor>x\<rfloor> < n" by (simp add: floor_less_iff)
    then show ?thesis by (auto simp: round_half_even_def Let_def)
  qed
qed

lemma binary64_nonpos: "x \<le> 0 \<Longrightarrow> binary64 x \<le> 0"
proof -
  assume a: "x \<le> 0"
  define e where "e = ilog2 \<bar>x\<bar> - 52"
  have "x / pow2 e \<le> of_int 0" using a pow2_pos [of e] by (simp add: divide_le_0_iff)
  then have "round_half_even (x / pow2 e) \<le> 0" by (rule round_half_even_le_int)
  then have "(of_int (round_half_even (x / pow2 e)) :: rat) \<le> 0" by simp
  then have "of_int (round_half_even (x / pow2 e)) * pow2 e \<le> 0"
    using pow2_pos [of e] by (simp add: mult_le_0_iff)
  then show ?thesis by (simp add: binary64_def Let_def e_def)
qed

lemma binary64_lower:
  assumes "0 < x"
  shows "x * (1 - 1 / 2 ^ 53) \<le> binary64 x"
proof -
  define k where "k = ilog2 x"
  define e where "e = k - 52"
  have kx: "pow2 k \<le> x" using ilog2_bounds(1) [OF assms] by (simp add: k_def)
  have pe: "pow2 e * 2 ^ 52 = pow2 k"
  proof -
    have "pow2 k = pow2 (e + 52)" by (simp add: e_def)
    also have "\<dots> = pow2 e * pow2 52" by (rule pow2_add)
    finally show ?thesis by (simp add: pow2_def)
  qed
  have b: "binary64 x = of_int (round_half_even (x / pow2 e)) * pow2 e"
    using assms by (simp add: binary64_def Let_def e_def k_def)
  have "x / pow2 e - 1 / 2 \<le> of_int (round_half_even (x / pow2 e))"
    by (rule round_half_even_lower)
  then have "(x / pow2 e - 1 / 2) * pow2 e \<le> of_int (round_half_even (x / pow2 e)) * pow2 e"
    using pow2_pos [of e] by (simp only: mult_le_cancel_right_pos)
  moreover have "(x / pow2 e - 1 / 2) * pow2 e = x - pow2 e / 2"
    using pow2_pos [of e] by (simp add: algebra_simps)
  ultimately have l: "x - pow2 e / 2 \<le> binary64 x" by (simp add: b)
  have "pow2 e * 2 ^ 52 \<le> x" using kx pe by simp
  then have "pow2 e \<le> x / 2 ^ 52" by (simp add: pos_le_divide_eq)
  then have "pow2 e / 2 \<le> x / 2 ^ 53" by simp
  then have "x * (1 - 1 / 2 ^ 53) \<le> x - pow2 e / 2" by (simp add: algebra_simps)
  with l show ?thesis by simp
qed

lemma binary64_le_300:
  assumes "0 < x" "x \<le> 300"
  shows "binary64 x \<le> 300"
proof -
  define k where "k = ilog2 x"
  define e where "e = k - 52"
  have "pow2 k \<le> x" using ilog2_bounds(1) [OF assms(1)] by (simp add: k_def)
  also have "x < pow2 9" using assms(2) by (simp add: pow2_def)
  finally have "k < 9" by (simp add: pow2_less_iff)
  then have e: "e \<le> - 44" by (simp add: e_def)
  define N :: int where "N = 300 * 2 ^ nat (- e)"
  have pe: "pow2 e = 1 / 2 ^ nat (- e)" using e by (simp add: pow2_def)
  have "x / pow2 e = x * 2 ^ nat (- e)" by (simp add: pe)
  also have "\<dots> \<le> 300 * 2 ^ nat (- e)" using assms(2) by simp
  also have "\<dots> = of_int N" by (simp add: N_def)
  finally have "round_half_even (x / pow2 e) \<le> N" by (rule round_half_even_le_int)
  then have "(of_int (round_half_even (x / pow2 e)) :: rat) \<le> of_int N" by (simp only: of_int_le_iff)
  then have "of_int (round_half_even (x / pow2 e)) * pow2 e \<le> of_int N * pow2 e"
    using pow2_pos [of e] by (simp only: mult_le_cancel_right_pos)
  also have "of_int N * pow2 e = 300" by (simp add: N_def pe)
  finally show ?thesis using assms(1) by (simp add: binary64_def Let_def e_def k_def)
qed

lemma total_seconds_threshold:
  "of_int cache_duration < total_seconds td \<longleftrightarrow> 300000000 < td"
proof (cases "300000000 < td")
  case True
  then have "300000001 \<le> td" by simp
  then have "(of_int 300000001 :: rat) \<le> of_int td" by (simp only: of_int_le_iff)
  then have x: "(300000001 :: rat) / 1000000 \<le> of_int td / 1000000" by simp
  then have pos: "(0 :: rat) < of_int td / 1000000" by simp
  have "(300 :: rat) < (300000001 / 1000000) * (1 - 1 / 2 ^ 53)" by simp
  also have "\<dots> \<le> (of_int td / 1000000) * (1 - 1 / 2 ^ 53)"
    using x by (simp only: mult_le_cancel_right) simp
  also have "\<dots> \<le> binary64 (of_int td / 1000000)" by (rule binary64_lower [OF pos])
  finally show ?thesis using True by (simp add: total_seconds_def cache_duration_def)
next
  case False
  then have "td \<le> 300000000" by simp
  then have "(of_int td :: rat) \<le> of_int 300000000" by (simp only: of_int_le_iff)
  then have x: "(of_int td :: rat) / 1000000 \<le> 300" by simp
  have "binary64 (of_int td / 1000000) \<le> 300"
  proof (cases "0 < (of_int td :: rat) / 1000000")
    case True
    then show ?thesis using x by (rule binary64_le_300)
  next
    case False
    then have "binary64 (of_int td / 1000000) \<le> 0" by (intro binary64_nonpos) simp
    then show ?thesis by simp
  qed
  then show ?thesis using False by (simp add: total_seconds_def cache_duration_def)
qed

lemma round_half_even_upper: "of_int (round_half_even x) \<le> x + 1 / 2"
  unfolding round_half_even_def Let_def by (auto; linarith)

lemma binary64_upper:
  assumes "0 < x"
  shows "binary64 x \<le> x * (1 + 1 / 2 ^ 53)"
proof -
  define k where "k = ilog2 x"
  define e where "e = k - 52"
  have kx: "pow2 k \<le> x" using ilog2_bounds(1) [OF assms] by (simp add: k_def)
  have pe: "pow2 e * 2 ^ 52 = pow2 k"
  proof -
    have "pow2 k = pow2 (e + 52)" by (simp add: e_def)
    also have "\<dots> = pow2 e * pow2 52" by (rule pow2_add)
    finally show ?thesis by (simp add: pow2_def)
  qed
  have b: "binary64 x = of_int (round_half_even (x / pow2 e)) * pow2 e"
    using assms by (simp add: binary64_def Let_def e_def k_def)
  have "of_int (round_half_even (x / pow2 e)) \<le> x / pow2 e + 1 / 2"
    by (rule round_half_even_upper)
  then have "of_int (round_half_even (x / pow2 e)) * pow2 e \<le> (x / pow2 e + 1 / 2) * pow2 e"
    using pow2_pos [of e] by (simp only: mult_le_cancel_right_pos)
  moreover have "(x / pow2 e + 1 / 2) * pow2 e = x + pow2 e / 2"
    using pow2_pos [of e] by (simp add: algebra_simps)
  ultimately have l: "binary64 x \<le> x + pow2 e / 2" by (simp add: b)
  have "pow2 e * 2 ^ 52 \<le> x" using kx pe by simp
  then have "pow2 e \<le> x / 2 ^ 52" by (simp add: pos_le_divide_eq)
  then have "pow2 e / 2 \<le> x / 2 ^ 53" by simp
  then have "x + pow2 e / 2 \<le> x * (1 + 1 / 2 ^ 53)" by (simp add: algebra_simps)
  with l show ?thesis by simp
qed

lemma binary64_rel:
  assumes "0 \<le> x"
  shows "x * (1 - 1 / 2 ^ 53) \<le> binary64 x" and "binary64 x \<le> x * (1 + 1 / 2 ^ 53)"
proof -
  show "x * (1 - 1 / 2 ^ 53) \<le> binary64 x"
  proof (cases "x = 0")
    case True
    then show ?thesis by (simp add: binary64_def)
  next
    case False
    then have "0 < x" using assms by simp
    then show ?thesis by (rule binary64_lower)
  qed
  show "binary64 x \<le> x * (1 + 1 / 2 ^ 53)"
  proof (cases "x = 0")
    case True
    then show ?thesis by (simp add: binary64_def)
  next
    case False
    then have "0 < x" using assms by simp
    then show ?thesis by (rule binary64_upper)
  qed
qed

lemma binary64_nonneg: "0 \<le> x \<Longrightarrow> 0 \<le> binary64 x"
proof -
  assume a: "0 \<le> x"
  have "0 \<le> x * (1 - 1 / 2 ^ 53)" using a by (intro mult_nonneg_nonneg) simp_all
  also have "\<dots> \<le> binary64 x" using a by (rule binary64_rel(1))
  finally show ?thesis .
qed

lemma binary64_100: "binary64 (of_int 100) = 100"
  by code_simp

lemma py_mul_100_bounds:
  assumes "0 \<le> r"
  shows "r * 100 * (1 - 1 / 2 ^ 51) \<le> py_mul (binary64 r) 100"
    and "py_mul (binary64 r) 100 \<le> r * 100 * (1 + 1 / 2 ^ 51)"
proof -
  define q where "q = binary64 r"
  define lo :: rat where "lo = 1 - 1 / 2 ^ 53"
  define hi :: rat where "hi = 1 + 1 / 2 ^ 53"
  have q0: "0 \<le> q" using assms by (simp add: q_def binary64_nonneg)
  have q1: "r * lo \<le> q" "q \<le> r * hi"
    using binary64_rel [OF assms] by (simp_all add: q_def lo_def hi_def)
  have p: "py_mul q 100 = binary64 (q * 100)"
    using binary64_100 by (simp add: py_mul_def)
  have q100: "0 \<le> q * 100" using q0 by simp
  have p1: "q * 100 * lo \<le> py_mul q 100" "py_mul q 100 \<le> q * 100 * hi"
    using binary64_rel [OF q100] by (simp_all add: p lo_def hi_def)
  have lo0: "0 \<le> lo" and hi0: "0 \<le> hi" by (simp_all add: lo_def hi_def)
  have ll: "1 - 1 / 2 ^ 51 \<le> lo * lo" and hh: "hi * hi \<le> 1 + 1 / 2 ^ 51"
    by (simp_all add: lo_def hi_def)
  have r100: "0 \<le> r * 100" using assms by simp
  have "r * 100 * (1 - 1 / 2 ^ 51) \<le> r * 100 * (lo * lo)"
    using ll r100 by (rule mult_left_mono)
  also have "\<dots> = (r * lo) * (100 * lo)" by simp
  also have "\<dots> \<le> q * (100 * lo)"
    using q1(1) lo0 by (intro mult_right_mono) simp_all
  also have "\<dots> = q * 100 * lo" by simp
  also have "\<dots> \<le> py_mul q 100" by (rule p1(1))
  finally show "r * 100 * (1 - 1 / 2 ^ 51) \<le> py_mul (binary64 r) 100" by (simp add: q_def)
  have "py_mul q 100 \<le> q * 100 * hi" by (rule p1(2))
  also have "\<dots> = q * (100 * hi)" by simp
  also have "\<dots> \<le> (r * hi) * (100 * hi)"
    using q1(2) hi0 by (intro mult_right_mono) simp_all
  also have "\<dots> = r * 100 * (hi * hi)" by simp
  also have "\<dots> \<le> r * 100 * (1 + 1 / 2 ^ 51)"
    using hh r100 by (rule mult_left_mono)
  finally show "py_mul (binary64 r) 100 \<le> r * 100 * (1 + 1 / 2 ^ 51)" by (simp add: q_def)
qed

section \<open>The staleness check\<close>

lemma cache_age_exceeded_world: "snd (cache_age_exceeded L w) = w"
  by (simp add: cache_age_exceeded_def read_cache_file_def
      split: option.split sum.split)

lemma should_update_cache_world: "snd (should_update_cache L w) = w"
proof -
  obtain r w1 where c: "cache_age_exceeded L w = (r, w1)"
    by (cases "cache_age_exceeded L w")
  then have "w1 = w" using cache_age_exceeded_world [of L w] by simp
  then show ?thesis
    by (simp add: should_update_cache_def c split: sum.split)
qed

lemma should_update_cache_absent:
  "cache_file w = None \<Longrightarrow> should_update_cache L w = (Inr True, w)"
  by (simp add: should_update_cache_def os_path_exists_def)

lemma should_update_cache_undecodable:
  "cache_file w = Some c \<Longrightarrow> json_loads L c = None \<Longrightarrow> should_update_cache L w = (Inr True, w)"
  by (simp add: should_update_cache_def os_path_exists_def cache_age_exceeded_def
      read_cache_file_def caught_def)

lemma should_update_cache_not_dict:
  "cache_file w = Some c \<Longrightarrow> json_loads L c = Some v \<Longrightarrow> py_get v ''last_update'' (JStr []) = Inl e
    \<Longrightarrow> should_update_cache L w = (Inl AttributeError, w)"
  by (cases v) (simp_all add: should_update_cache_def os_path_exists_def cache_age_exceeded_def
      read_cache_file_def caught_def py_get_def)

lemma should_update_cache_timestamp:
  assumes "cache_file w = Some c" "json_loads L c = Some v"
    and "py_get v ''last_update'' (JStr []) = Inr x"
  shows "should_update_cache L w =
    (case datetime_fromisoformat L x of
       Inl e \<Rightarrow> if caught e then (Inr True, w) else (Inl e, w)
     | Inr (Naive t) \<Rightarrow> (Inr (300000000 < clock w - t), w)
     | Inr (Aware t off) \<Rightarrow> (Inl TypeError, w))"
  using assms
  by (simp add: should_update_cache_def os_path_exists_def cache_age_exceeded_def
      read_cache_file_def caught_def datetime_now_def total_seconds_threshold
      split: sum.split datetime.split)

lemma should_update_cache_naive:
  assumes "cache_file w = Some c" "json_loads L c = Some (JObj kvs)"
    and "map_of kvs ''last_update'' = Some (JStr s)"
    and "fromisoformat L s = Some (Naive t)"
  shows "should_update_cache L w = (Inr (300000000 < clock w - t), w)"
proof -
  have "py_get (JObj kvs) ''last_update'' (JStr []) = Inr (JStr s)"
    using assms(3) by (simp add: py_get_def)
  from should_update_cache_timestamp [OF assms(1,2) this]
  show ?thesis using assms(4) by (simp add: datetime_fromisoformat_def)
qed

lemma should_update_cache_False:
  assumes "fst (should_update_cache L w) = Inr False"
  shows "\<exists>c v. cache_file w = Some c \<and> json_loads L c = Some v"
proof (cases "cache_file w")
  case None
  then show ?thesis using assms by (simp add: should_update_cache_absent)
next
  case (Some c)
  then show ?thesis using assms
    by (cases "json_loads L c") (simp_all add: should_update_cache_undecodable)
qed

section \<open>Cache hit and refresh\<close>

lemma load_cache_parsed:
  "cache_file w = Some c \<Longrightarrow> json_loads L c = Some v \<Longrightarrow> load_cache L w = (Inr v, w)"
  by (simp add: load_cache_def read_cache_file_def)

lemma get_migration_stats_hit:
  assumes "fst (should_update_cache L w) = Inr False"
    and "cache_file w = Some c" "json_loads L c = Some v"
  shows "get_migration_stats L db w = (Inr v, w)"
proof -
  have "should_update_cache L w = (Inr False, w)"
    using assms(1) should_update_cache_world [of L w]
    by (cases "should_update_cache L w") simp
  then show ?thesis
    by (simp add: get_migration_stats_def load_cache_parsed [OF assms(2,3)])
qed

lemma migration_rate_value:
  "migration_rate m t =
     Inr (if 0 < t then JFloat (py_round (py_mul (binary64 (of_int m / of_int t)) 100) 2)
          else JInt 0)"
  by (simp add: migration_rate_def py_truediv_def)

lemma migration_rate_rounded:
  assumes "0 < t" and "0 \<le> m"
  shows "\<exists>n. migration_rate m t = Inr (JFloat (binary64 (of_int n / 100))) \<and>
           \<bar>(of_int n :: rat) / 100 - of_int m / of_int t * 100\<bar>
             \<le> 1 / 200 + of_int m / of_int t * 100 / 2 ^ 51"
proof -
  define r :: rat where "r = of_int m / of_int t"
  define p where "p = py_mul (binary64 r) 100"
  define n where "n = round_half_even (p * 100)"
  have r0: "0 \<le> r" using assms by (simp add: r_def)
  have m: "migration_rate m t = Inr (JFloat (binary64 (of_int n / 100)))"
    using assms(1) by (simp add: migration_rate_value py_round_def n_def p_def r_def)
  have n1: "p * 100 - 1 / 2 \<le> of_int n" "of_int n \<le> p * 100 + 1 / 2"
    by (simp_all add: n_def round_half_even_lower round_half_even_upper)
  have p1: "r * 100 * (1 - 1 / 2 ^ 51) \<le> p" "p \<le> r * 100 * (1 + 1 / 2 ^ 51)"
    using py_mul_100_bounds [OF r0] by (simp_all add: p_def)
  have a: "of_int n / 100 - r * 100 \<le> 1 / 200 + r * 100 / 2 ^ 51"
  proof -
    have "of_int n / 100 \<le> p + 1 / 200" using n1(2) by simp
    also have "\<dots> \<le> r * 100 * (1 + 1 / 2 ^ 51) + 1 / 200" using p1(2) by simp
    finally show ?thesis by (simp add: algebra_simps)
  qed
  have b: "r * 100 - of_int n / 100 \<le> 1 / 200 + r * 100 / 2 ^ 51"
  proof -
    have "r * 100 * (1 - 1 / 2 ^ 51) - 1 / 200 \<le> p - 1 / 200" using p1(1) by simp
    also have "\<dots> \<le> of_int n / 100" using n1(1) by simp
    finally show ?thesis by (simp add: algebra_simps)
  qed
  have "\<bar>of_int n / 100 - r * 100\<bar> \<le> 1 / 200 + r * 100 / 2 ^ 51"
    using a b by (simp add: abs_le_iff)
  with m show ?thesis unfolding r_def by blast
qed

lemma rate_1_3: "migration_rate 1 3 = Inr (JFloat (binary64 (3333 / 100)))"
  by code_simp

lemma rate_2_3: "migration_rate 2 3 = Inr (JFloat (binary64 (6667 / 100)))"
  by code_simp

lemma rate_0_100: "migration_rate 0 100 = Inr (JFloat 0)"
  by code_simp

lemma make_stats_value:
  "make_stats L t m hs ds now =
     Inr (JObj [(''total_users'', JInt t),
                (''migrated_users'', JInt m),
                (''pending_users'', JInt (t - m)),
                (''migration_rate'',
                   if 0 < t then JFloat (py_round (py_mul (binary64 (of_int m / of_int t)) 100) 2)
                   else JInt 0),
                (''hourly_data'', JArr hs),
                (''daily_data'', JArr ds),
                (''last_update'', JStr (isoformat L now))])"
  by (simp add: make_stats_def migration_rate_value)

lemma fetch_and_store_ok:
  assumes "failing_queries db = {}"
    and "make_stats L (count_total db) (count_migrated db) (map hourly_item (hourly_rows db))
           (map daily_item (daily_rows db)) (Naive (clock w)) = Inr stats"
  shows "fetch_and_store L db w =
     (Inr stats,
      w\<lparr>cache_file := Some (json_dumps L stats),
        db_log := db_log w @ [Execute CountTotal, Execute CountMigrated,
                              Execute HourlySeries, Execute DailySeries]\<rparr>)"
  using assms
  by (simp add: fetch_and_store_def cursor_execute_def Let_def datetime_now_def
      write_cache_file_def)

lemma fetch_and_store_Inr:
  assumes "fetch_and_store L db w = (Inr stats, w')"
  shows "make_stats L (count_total db) (count_migrated db) (map hourly_item (hourly_rows db))
           (map daily_item (daily_rows db)) (Naive (clock w)) = Inr stats
         \<and> w' = w\<lparr>cache_file := Some (json_dumps L stats),
                  db_log := db_log w @ [Execute CountTotal, Execute CountMigrated,
                              Execute HourlySeries, Execute DailySeries]\<rparr>"
  using assms
  by (auto simp add: fetch_and_store_def cursor_execute_def Let_def datetime_now_def
      write_cache_file_def split: if_splits sum.splits)

lemma fetch_and_store_resources:
  "open_conns (snd (fetch_and_store L db w)) = open_conns w \<and>
   open_cursors (snd (fetch_and_store L db w)) = open_cursors w"
  by (simp add: fetch_and_store_def cursor_execute_def Let_def write_cache_file_def
      split: sum.split)

lemma fetch_and_store_query_fails:
  assumes "q \<in> failing_queries db"
  shows "fst (fetch_and_store L db w) = Inl MySQLError \<and>
         cache_file (snd (fetch_and_store L db w)) = cache_file w"
proof -
  have "CountTotal \<in> failing_queries db \<or> CountMigrated \<in> failing_queries db \<or>
        HourlySeries \<in> failing_queries db \<or> DailySeries \<in> failing_queries db"
    using assms by (cases q) simp_all
  then show ?thesis
    by (auto simp add: fetch_and_store_def cursor_execute_def Let_def)
qed

lemma get_migration_stats_stale:
  assumes "fst (should_update_cache L w) = Inr True"
  shows "get_migration_stats L db w =
     (case try_block L db w of
        (r, fr, w2) \<Rightarrow>
          (case finally_block fr w2 of (Inl e, w3) \<Rightarrow> (Inl e, w3) | (Inr _, w3) \<Rightarrow> (r, w3)))"
proof -
  have "should_update_cache L w = (Inr True, w)"
    using assms should_update_cache_world [of L w]
    by (cases "should_update_cache L w") simp
  then show ?thesis by (simp add: get_migration_stats_def)
qed

lemma get_migration_stats_refresh:
  assumes "fst (should_update_cache L w) = Inr True"
    and "\<not> connect_fails db" "failing_queries db = {}"
    and "make_stats L (count_total db) (count_migrated db) (map hourly_item (hourly_rows db))
           (map daily_item (daily_rows db)) (Naive (clock w)) = Inr stats"
  shows "get_migration_stats L db w =
     (Inr stats,
      w\<lparr>cache_file := Some (json_dumps L stats),
        db_log := db_log w @ [Connect, OpenCursor, Execute CountTotal, Execute CountMigrated,
                              Execute HourlySeries, Execute DailySeries, CloseCursor,
                              CloseConnection]\<rparr>)"
proof -
  define w1 where "w1 = conn_cursor (w\<lparr>db_log := db_log w @ [Connect],
                                      open_conns := Suc (open_conns w)\<rparr>)"
  have c: "clock w1 = clock w" by (simp add: w1_def conn_cursor_def)
  have "fetch_and_store L db w1 =
     (Inr stats,
      w1\<lparr>cache_file := Some (json_dumps L stats),
         db_log := db_log w1 @ [Execute CountTotal, Execute CountMigrated,
                              Execute HourlySeries, Execute DailySeries]\<rparr>)"
    using assms(3,4) by (intro fetch_and_store_ok) (simp_all add: c)
  then show ?thesis
    using assms(2)
    by (simp add: get_migration_stats_stale [OF assms(1)] try_block_def get_db_connection_def
        Let_def finally_block_def cursor_close_def conn_close_def w1_def conn_cursor_def)
qed

lemma get_migration_stats_fresh_result:
  assumes "fst (should_update_cache L w) = Inr True"
    and "get_migration_stats L db w = (Inr stats, w')"
  shows "make_stats L (count_total db) (count_migrated db) (map hourly_item (hourly_rows db))
           (map daily_item (daily_rows db)) (Naive (clock w)) = Inr stats
         \<and> w' = w\<lparr>cache_file := Some (json_dumps L stats),
                  db_log := db_log w @ [Connect, OpenCursor, Execute CountTotal,
                     Execute CountMigrated, Execute HourlySeries, Execute DailySeries,
                     CloseCursor, CloseConnection]\<rparr>"
proof (cases "connect_fails db")
  case True
  then show ?thesis using assms(2)
    by (simp add: get_migration_stats_stale [OF assms(1)] try_block_def get_db_connection_def
        Let_def finally_block_def)
next
  case False
  define w1 where "w1 = conn_cursor (w\<lparr>db_log := db_log w @ [Connect],
                                      open_conns := Suc (open_conns w)\<rparr>)"
  obtain r w2 where f: "fetch_and_store L db w1 = (r, w2)"
    by (cases "fetch_and_store L db w1")
  have g: "get_migration_stats L db w = (r, conn_close (cursor_close w2))"
    using False
    by (simp add: get_migration_stats_stale [OF assms(1)] try_block_def get_db_connection_def
        Let_def finally_block_def w1_def [symmetric] f)
  then have r: "r = Inr stats" and w': "w' = conn_close (cursor_close w2)"
    using assms(2) by simp_all
  have c: "clock w1 = clock w" by (simp add: w1_def conn_cursor_def)
  from fetch_and_store_Inr [OF f [unfolded r]]
  show ?thesis
    by (simp add: c w' cursor_close_def conn_close_def w1_def conn_cursor_def)
qed

section \<open>Evaluations on the sample inputs\<close>

lemma sample_world_stale:
  "should_update_cache sample_lib (sample_world None now) = (Inr True, sample_world None now)"
  by (simp add: should_update_cache_absent sample_world_def)

lemma sample_make_stats:
  "make_stats sample_lib (count_total sample_db) (count_migrated sample_db)
     (map hourly_item (hourly_rows sample_db)) (map daily_item (daily_rows sample_db))
     (Naive 0) = Inr sample_stats"
  by code_simp

lemma sample_hit:
  \<open>should_update_cache sample_lib
       (sample_world (Some ''{"last_update": "2024-01-01T12:00:00"}'') 299000000)
     = (Inr False, sample_world (Some ''{"last_update": "2024-01-01T12:00:00"}'') 299000000)\<close>
  by code_simp

lemma sample_round_trip:
  "json_loads sample_lib (json_dumps sample_lib sample_stats) = Some sample_stats"
  by code_simp

lemma sample_iso_round_trip:
  "fromisoformat sample_lib (isoformat sample_lib (Naive 0)) = Some (Naive 0)"
  by code_simp

lemma sample_refresh:
  "get_migration_stats sample_lib sample_db (sample_world None 0)
     = (Inr sample_stats,
        \<lparr>cache_file = Some (json_dumps sample_lib sample_stats), clock = 0, open_conns = 0,
           open_cursors = 0,
           db_log = [Connect, OpenCursor, Execute CountTotal, Execute CountMigrated,
             Execute HourlySeries, Execute DailySeries, CloseCursor, CloseConnection]\<rparr>)"
  by code_simp

lemma sample_counts:
  "count_total sample_db = 4" "count_migrated sample_db = 1"
  "count_total (sample_db\<lparr>users := []\<rparr>) = 0" "count_migrated (sample_db\<lparr>users := []\<rparr>) = 0"
  by (simp_all add: count_total_def count_migrated_def sample_db_def)

section \<open>The claims\<close>

text \<open>
  C1. The claim: for every cache-file content that cannot be parsed or that lacks a valid
  timestamp field, \<open>should_update_cache\<close> returns true and never raises. The code does
  not do that on three kinds of content, which this theorem describes: a JSON value that
  is not an object has no \<^verbatim>\<open>get\<close> method (\<^verbatim>\<open>AttributeError\<close>); a \<^verbatim>\<open>last_update\<close> that is
  not a string makes \<^verbatim>\<open>fromisoformat\<close> raise \<^verbatim>\<open>TypeError\<close>; a \<^verbatim>\<open>last_update\<close> with a UTC
  offset gives an aware \<^verbatim>\<open>datetime\<close>, which cannot be subtracted from \<^verbatim>\<open>datetime.now()\<close>
  (\<^verbatim>\<open>TypeError\<close>). Neither exception is in the \<^verbatim>\<open>except\<close> clause, so both reach the caller.
\<close>

theorem corrupt_cache_raises:
  "(cache_file w = Some c \<and> json_loads L c = Some v \<and> (\<forall>kvs. v \<noteq> JObj kvs)
      \<longrightarrow> should_update_cache L w = (Inl AttributeError, w)) \<and>
   (cache_file w = Some c \<and> json_loads L c = Some (JObj kvs) \<and>
    map_of kvs ''last_update'' = Some x \<and> (\<forall>s. x \<noteq> JStr s)
      \<longrightarrow> should_update_cache L w = (Inl TypeError, w)) \<and>
   (cache_file w = Some c \<and> json_loads L c = Some (JObj kvs) \<and>
    map_of kvs ''last_update'' = Some (JStr s) \<and> fromisoformat L s = Some (Aware t off)
      \<longrightarrow> should_update_cache L w = (Inl TypeError, w))"
proof (intro conjI impI)
  assume a: "cache_file w = Some c \<and> json_loads L c = Some v \<and> (\<forall>kvs. v \<noteq> JObj kvs)"
  then have "py_get v ''last_update'' (JStr []) = Inl AttributeError"
    by (cases v) (simp_all add: py_get_def)
  with a show "should_update_cache L w = (Inl AttributeError, w)"
    by (simp add: should_update_cache_not_dict)
next
  assume a: "cache_file w = Some c \<and> json_loads L c = Some (JObj kvs) \<and>
    map_of kvs ''last_update'' = Some x \<and> (\<forall>s. x \<noteq> JStr s)"
  then have g: "py_get (JObj kvs) ''last_update'' (JStr []) = Inr x"
    by (simp add: py_get_def)
  have f: "datetime_fromisoformat L x = Inl TypeError"
    using a by (cases x) (simp_all add: datetime_fromisoformat_def)
  from a have c: "cache_file w = Some c" and j: "json_loads L c = Some (JObj kvs)" by simp_all
  show "should_update_cache L w = (Inl TypeError, w)"
    by (simp add: should_update_cache_timestamp [OF c j g] f caught_def)
next
  assume a: "cache_file w = Some c \<and> json_loads L c = Some (JObj kvs) \<and>
    map_of kvs ''last_update'' = Some (JStr s) \<and> fromisoformat L s = Some (Aware t off)"
  then have g: "py_get (JObj kvs) ''last_update'' (JStr []) = Inr (JStr s)"
    by (simp add: py_get_def)
  have f: "datetime_fromisoformat L (JStr s) = Inr (Aware t off)"
    using a by (simp add: datetime_fromisoformat_def)
  from a have c: "cache_file w = Some c" and j: "json_loads L c = Some (JObj kvs)" by simp_all
  show "should_update_cache L w = (Inl TypeError, w)"
    by (simp add: should_update_cache_timestamp [OF c j g] f)
qed

theorem corrupt_cache_raises_witness:
  \<open>should_update_cache sample_lib (sample_world (Some ''[]'') 0)
     = (Inl AttributeError, sample_world (Some ''[]'') 0) \<and>
   should_update_cache sample_lib (sample_world (Some ''{"last_update": 5}'') 0)
     = (Inl TypeError, sample_world (Some ''{"last_update": 5}'') 0) \<and>
   should_update_cache sample_lib
       (sample_world (Some ''{"last_update": "2024-01-01T12:00:00+00:00"}'') 0)
     = (Inl TypeError, sample_world (Some ''{"last_update": "2024-01-01T12:00:00+00:00"}'') 0)\<close>
proof (intro conjI)
  show \<open>should_update_cache sample_lib (sample_world (Some ''[]'') 0)
     = (Inl AttributeError, sample_world (Some ''[]'') 0)\<close>
    using corrupt_cache_raises [where w = "sample_world (Some ''[]'') 0" and c = "''[]''"
        and L = sample_lib and v = "JArr []", THEN conjunct1]
    by (simp add: sample_world_def sample_lib_def sample_json_def)
  show \<open>should_update_cache sample_lib (sample_world (Some ''{"last_update": 5}'') 0)
     = (Inl TypeError, sample_world (Some ''{"last_update": 5}'') 0)\<close>
    using corrupt_cache_raises [where w = \<open>sample_world (Some ''{"last_update": 5}'') 0\<close>
        and c = \<open>''{"last_update": 5}''\<close> and L = sample_lib
        and kvs = "[(''last_update'', JInt 5)]" and x = "JInt 5", THEN conjunct2, THEN conjunct1]
    by (simp add: sample_world_def sample_lib_def sample_json_def)
  show \<open>should_update_cache sample_lib
       (sample_world (Some ''{"last_update": "2024-01-01T12:00:00+00:00"}'') 0)
     = (Inl TypeError, sample_world (Some ''{"last_update": "2024-01-01T12:00:00+00:00"}'') 0)\<close>
    using corrupt_cache_raises [where
        w = \<open>sample_world (Some ''{"last_update": "2024-01-01T12:00:00+00:00"}'') 0\<close>
        and c = \<open>''{"last_update": "2024-01-01T12:00:00+00:00"}''\<close> and L = sample_lib
        and kvs = "[(''last_update'', JStr ''2024-01-01T12:00:00+00:00'')]"
        and s = "''2024-01-01T12:00:00+00:00''" and t = 0 and off = 0,
        THEN conjunct2, THEN conjunct2]
    by (simp add: sample_world_def sample_lib_def sample_json_def sample_timestamps_def)
qed




text \<open>
  C3. \<open>get_migration_stats\<close>: when the cache is not stale, it returns the value parsed from
  the cache file and leaves the world as it is, so it makes no call to the database driver
  (\<open>db_log\<close> is part of the world). When the cache is stale and the connection and the four
  queries succeed, it computes the snapshot from the database (connect, cursor, the four
  queries in order, close cursor, close connection), writes its JSON text to the cache file
  and returns that snapshot.
\<close>

theorem get_or_refresh:
  "(fst (should_update_cache L w) = Inr False \<longrightarrow>
      (\<exists>c v. cache_file w = Some c \<and> json_loads L c = Some v \<and>
             get_migration_stats L db w = (Inr v, w))) \<and>
   (fst (should_update_cache L w) = Inr True \<and> \<not> connect_fails db \<and> failing_queries db = {} \<longrightarrow>
      (\<exists>stats. make_stats L (count_total db) (count_migrated db)
                 (map hourly_item (hourly_rows db)) (map daily_item (daily_rows db))
                 (Naive (clock w)) = Inr stats \<and>
               get_migration_stats L db w =
                 (Inr stats,
                  w\<lparr>cache_file := Some (json_dumps L stats),
                    db_log := db_log w @ [Connect, OpenCursor, Execute CountTotal,
                      Execute CountMigrated, Execute HourlySeries, Execute DailySeries,
                      CloseCursor, CloseConnection]\<rparr>)))"
proof (intro conjI impI)
  assume a: "fst (should_update_cache L w) = Inr False"
  then obtain c v where cv: "cache_file w = Some c" "json_loads L c = Some v"
    using should_update_cache_False by blast
  then have "get_migration_stats L db w = (Inr v, w)"
    using a by (intro get_migration_stats_hit)
  with cv show "\<exists>c v. cache_file w = Some c \<and> json_loads L c = Some v \<and>
             get_migration_stats L db w = (Inr v, w)" by blast
next
  assume a: "fst (should_update_cache L w) = Inr True \<and> \<not> connect_fails db \<and>
             failing_queries db = {}"
  obtain stats where m: "make_stats L (count_total db) (count_migrated db)
                 (map hourly_item (hourly_rows db)) (map daily_item (daily_rows db))
                 (Naive (clock w)) = Inr stats"
    by (simp add: make_stats_value)
  have "get_migration_stats L db w =
                 (Inr stats,
                  w\<lparr>cache_file := Some (json_dumps L stats),
                    db_log := db_log w @ [Connect, OpenCursor, Execute CountTotal,
                      Execute CountMigrated, Execute HourlySeries, Execute DailySeries,
                      CloseCursor, CloseConnection]\<rparr>)"
    using a m by (intro get_migration_stats_refresh) simp_all
  with m show "\<exists>stats. make_stats L (count_total db) (count_migrated db)
                 (map hourly_item (hourly_rows db)) (map daily_item (daily_rows db))
                 (Naive (clock w)) = Inr stats \<and>
               get_migration_stats L db w =
                 (Inr stats,
                  w\<lparr>cache_file := Some (json_dumps L stats),
                    db_log := db_log w @ [Connect, OpenCursor, Execute CountTotal,
                      Execute CountMigrated, Execute HourlySeries, Execute DailySeries,
                      CloseCursor, CloseConnection]\<rparr>)" by blast
qed

theorem get_or_refresh_witness:
  \<open>get_migration_stats sample_lib (sample_db\<lparr>connect_fails := True\<rparr>)
       (sample_world (Some ''{"last_update": "2024-01-01T12:00:00"}'') 299000000)
     = (Inr (JObj [(''last_update'', JStr ''2024-01-01T12:00:00'')]),
        sample_world (Some ''{"last_update": "2024-01-01T12:00:00"}'') 299000000) \<and>
   get_migration_stats sample_lib sample_db (sample_world None 0)
     = (Inr sample_stats,
        (sample_world None 0)\<lparr>cache_file := Some (json_dumps sample_lib sample_stats),
           db_log := [Connect, OpenCursor, Execute CountTotal, Execute CountMigrated,
             Execute HourlySeries, Execute DailySeries, CloseCursor, CloseConnection]\<rparr>)\<close>
proof (intro conjI)
  have \<open>fst (should_update_cache sample_lib
       (sample_world (Some ''{"last_update": "2024-01-01T12:00:00"}'') 299000000)) = Inr False\<close>
    by (simp add: sample_hit)
  from get_or_refresh [THEN conjunct1, rule_format, OF this,
      of "sample_db\<lparr>connect_fails := True\<rparr>"]
  show \<open>get_migration_stats sample_lib (sample_db\<lparr>connect_fails := True\<rparr>)
       (sample_world (Some ''{"last_update": "2024-01-01T12:00:00"}'') 299000000)
     = (Inr (JObj [(''last_update'', JStr ''2024-01-01T12:00:00'')]),
        sample_world (Some ''{"last_update": "2024-01-01T12:00:00"}'') 299000000)\<close>
    by (auto simp add: sample_world_def sample_lib_def sample_json_def)
next
  have "fst (should_update_cache sample_lib (sample_world None 0)) = Inr True \<and>
        \<not> connect_fails sample_db \<and> failing_queries sample_db = {}"
    by (simp add: sample_world_stale sample_db_def)
  from get_or_refresh [THEN conjunct2, rule_format, OF this]
  show "get_migration_stats sample_lib sample_db (sample_world None 0)
     = (Inr sample_stats,
        (sample_world None 0)\<lparr>cache_file := Some (json_dumps sample_lib sample_stats),
           db_log := [Connect, OpenCursor, Execute CountTotal, Execute CountMigrated,
             Execute HourlySeries, Execute DailySeries, CloseCursor, CloseConnection]\<rparr>)"
    using sample_make_stats by (auto simp add: sample_world_def)
qed

text \<open>
  C4. The \<^verbatim>\<open>migration_rate\<close> of a snapshot is \<^verbatim>\<open>round(migrated_users / total_users * 100, 2)\<close>
  when \<^verbatim>\<open>total_users > 0\<close>, and the integer 0 when \<^verbatim>\<open>total_users == 0\<close>: the division is
  never reached with a zero divisor, so the expression raises no \<^verbatim>\<open>ZeroDivisionError\<close>.
  Rounded to 2 decimals: the rate is the \<^verbatim>\<open>float\<close> nearest to \<open>n / 100\<close> for a whole number
  \<open>n\<close> of hundredths, and \<open>n / 100\<close> differs from the exact percentage by at most half a
  hundredth plus the error of the two floating-point operations (less than one part in
  \<open>2 ^ 51\<close> of the percentage). With 4 users of which 1 is migrated the rate is 25.0, with 1
  of 3 it is 33.33, with 2 of 3 it is 66.67, with 0 of 100 it is 0.0. A refresh that meets
  no database failure returns a snapshot with that rate of the two counts.
\<close>

theorem fresh_migration_rate:
  "migration_rate m t =
     Inr (if 0 < t then JFloat (py_round (py_mul (binary64 (of_int m / of_int t)) 100) 2)
          else JInt 0) \<and>
   (0 < t \<and> 0 \<le> m \<longrightarrow>
      (\<exists>n. migration_rate m t = Inr (JFloat (binary64 (of_int n / 100))) \<and>
           \<bar>(of_int n :: rat) / 100 - of_int m / of_int t * 100\<bar>
             \<le> 1 / 200 + of_int m / of_int t * 100 / 2 ^ 51)) \<and>
   migration_rate m 0 = Inr (JInt 0) \<and>
   migration_rate 1 4 = Inr (JFloat 25) \<and>
   migration_rate 1 3 = Inr (JFloat (binary64 (3333 / 100))) \<and>
   migration_rate 2 3 = Inr (JFloat (binary64 (6667 / 100))) \<and>
   migration_rate 0 100 = Inr (JFloat 0) \<and>
   (fst (should_update_cache L w) = Inr True \<and> \<not> connect_fails db \<and> failing_queries db = {}
    \<longrightarrow> (\<exists>stats w'. get_migration_stats L db w = (Inr stats, w') \<and>
          py_get stats ''migration_rate'' JNull =
            migration_rate (count_migrated db) (count_total db)))"
proof (intro conjI impI)
  show "migration_rate m t =
     Inr (if 0 < t then JFloat (py_round (py_mul (binary64 (of_int m / of_int t)) 100) 2)
          else JInt 0)"
    by (rule migration_rate_value)
  show "migration_rate m 0 = Inr (JInt 0)"
    by (simp add: migration_rate_def)
  show "migration_rate 1 4 = Inr (JFloat 25)"
    by code_simp
  show "migration_rate 1 3 = Inr (JFloat (binary64 (3333 / 100)))"
    by (rule rate_1_3)
  show "migration_rate 2 3 = Inr (JFloat (binary64 (6667 / 100)))"
    by (rule rate_2_3)
  show "migration_rate 0 100 = Inr (JFloat 0)"
    by (rule rate_0_100)
next
  assume "0 < t \<and> 0 \<le> m"
  then show "\<exists>n. migration_rate m t = Inr (JFloat (binary64 (of_int n / 100))) \<and>
           \<bar>(of_int n :: rat) / 100 - of_int m / of_int t * 100\<bar>
             \<le> 1 / 200 + of_int m / of_int t * 100 / 2 ^ 51"
    by (intro migration_rate_rounded) simp_all
next
  assume a: "fst (should_update_cache L w) = Inr True \<and> \<not> connect_fails db \<and>
             failing_queries db = {}"
  define stats where "stats = JObj [(''total_users'', JInt (count_total db)),
                (''migrated_users'', JInt (count_migrated db)),
                (''pending_users'', JInt (count_total db - count_migrated db)),
                (''migration_rate'',
                   if 0 < count_total db
                   then JFloat (py_round (py_mul (binary64 (of_int (count_migrated db) /
                                  of_int (count_total db))) 100) 2)
                   else JInt 0),
                (''hourly_data'', JArr (map hourly_item (hourly_rows db))),
                (''daily_data'', JArr (map daily_item (daily_rows db))),
                (''last_update'', JStr (isoformat L (Naive (clock w))))]"
  have m: "make_stats L (count_total db) (count_migrated db)
                 (map hourly_item (hourly_rows db)) (map daily_item (daily_rows db))
                 (Naive (clock w)) = Inr stats"
    by (simp add: make_stats_value stats_def)
  have g: "get_migration_stats L db w =
                 (Inr stats,
                  w\<lparr>cache_file := Some (json_dumps L stats),
                    db_log := db_log w @ [Connect, OpenCursor, Execute CountTotal,
                      Execute CountMigrated, Execute HourlySeries, Execute DailySeries,
                      CloseCursor, CloseConnection]\<rparr>)"
    using a m by (intro get_migration_stats_refresh) simp_all
  have "py_get stats ''migration_rate'' JNull =
            migration_rate (count_migrated db) (count_total db)"
    by (simp add: stats_def py_get_def migration_rate_value)
  with g show "\<exists>stats w'. get_migration_stats L db w = (Inr stats, w') \<and>
          py_get stats ''migration_rate'' JNull =
            migration_rate (count_migrated db) (count_total db)"
    by blast
qed

theorem fresh_migration_rate_witness:
  "(\<exists>n. migration_rate 1 3 = Inr (JFloat (binary64 (of_int n / 100))) \<and>
        \<bar>(of_int n :: rat) / 100 - of_int 1 / of_int 3 * 100\<bar>
          \<le> 1 / 200 + of_int 1 / of_int 3 * 100 / 2 ^ 51) \<and>
   (\<exists>stats w'. get_migration_stats sample_lib sample_db (sample_world None 0) = (Inr stats, w') \<and>
       py_get stats ''migration_rate'' JNull = Inr (JFloat 25)) \<and>
   (\<exists>stats w'. get_migration_stats sample_lib (sample_db\<lparr>users := []\<rparr>) (sample_world None 0)
         = (Inr stats, w') \<and>
       py_get stats ''migration_rate'' JNull = Inr (JInt 0))"
proof (intro conjI)
  have "(0::int) < 3 \<and> (0::int) \<le> 1" by simp
  from fresh_migration_rate [where m = 1 and t = 3, THEN conjunct2, THEN conjunct1,
      rule_format, OF this]
  show "\<exists>n. migration_rate 1 3 = Inr (JFloat (binary64 (of_int n / 100))) \<and>
        \<bar>(of_int n :: rat) / 100 - of_int 1 / of_int 3 * 100\<bar>
          \<le> 1 / 200 + of_int 1 / of_int 3 * 100 / 2 ^ 51" .
next
  have h: "fst (should_update_cache sample_lib (sample_world None 0)) = Inr True \<and>
        \<not> connect_fails sample_db \<and> failing_queries sample_db = {}"
    by (simp add: sample_world_stale sample_db_def)
  have r: "migration_rate 1 4 = Inr (JFloat 25)"
    by (rule fresh_migration_rate [THEN conjunct2, THEN conjunct2, THEN conjunct2,
          THEN conjunct1])
  from fresh_migration_rate [THEN conjunct2, THEN conjunct2, THEN conjunct2, THEN conjunct2,
      THEN conjunct2, THEN conjunct2, THEN conjunct2, rule_format, OF h]
  show "\<exists>stats w'. get_migration_stats sample_lib sample_db (sample_world None 0)
          = (Inr stats, w') \<and> py_get stats ''migration_rate'' JNull = Inr (JFloat 25)"
    by (simp add: sample_counts r)
next
  have h: "fst (should_update_cache sample_lib (sample_world None 0)) = Inr True \<and>
        \<not> connect_fails (sample_db\<lparr>users := []\<rparr>) \<and>
        failing_queries (sample_db\<lparr>users := []\<rparr>) = {}"
    by (simp add: sample_world_stale sample_db_def)
  have z: "migration_rate 0 0 = Inr (JInt 0)"
    by (rule fresh_migration_rate [THEN conjunct2, THEN conjunct2, THEN conjunct1])
  from fresh_migration_rate [THEN conjunct2, THEN conjunct2, THEN conjunct2, THEN conjunct2,
      THEN conjunct2, THEN conjunct2, THEN conjunct2, rule_format, OF h]
  show "\<exists>stats w'. get_migration_stats sample_lib (sample_db\<lparr>users := []\<rparr>) (sample_world None 0)
         = (Inr stats, w') \<and> py_get stats ''migration_rate'' JNull = Inr (JInt 0)"
    by (simp add: sample_counts z)
qed

text \<open>
  C5. In every snapshot freshly computed from a database state, \<^verbatim>\<open>total_users\<close> is the number
  of rows of \<^verbatim>\<open>users\<close>, \<^verbatim>\<open>migrated_users\<close> the number of rows whose \<^verbatim>\<open>cm_firebase_token\<close> is not
  null, \<^verbatim>\<open>pending_users\<close> their difference, and \<open>0 \<le> migrated_users \<le> total_users\<close>.
\<close>

theorem fresh_counts:
  assumes "fst (should_update_cache L w) = Inr True"
    and "get_migration_stats L db w = (Inr stats, w')"
  shows "py_get stats ''total_users'' JNull = Inr (JInt (count_total db)) \<and>
         py_get stats ''migrated_users'' JNull = Inr (JInt (count_migrated db)) \<and>
         py_get stats ''pending_users'' JNull = Inr (JInt (count_total db - count_migrated db)) \<and>
         0 \<le> count_migrated db \<and> count_migrated db \<le> count_total db"
proof -
  have "make_stats L (count_total db) (count_migrated db) (map hourly_item (hourly_rows db))
           (map daily_item (daily_rows db)) (Naive (clock w)) = Inr stats"
    using get_migration_stats_fresh_result [OF assms] by simp
  then have "py_get stats ''total_users'' JNull = Inr (JInt (count_total db))"
    "py_get stats ''migrated_users'' JNull = Inr (JInt (count_migrated db))"
    "py_get stats ''pending_users'' JNull = Inr (JInt (count_total db - count_migrated db))"
    by (auto simp add: make_stats_value py_get_def)
  moreover have "0 \<le> count_migrated db" "count_migrated db \<le> count_total db"
    by (simp_all add: count_migrated_def count_total_def)
  ultimately show ?thesis by simp
qed

theorem fresh_counts_witness:
  "py_get sample_stats ''total_users'' JNull = Inr (JInt 4) \<and>
   py_get sample_stats ''migrated_users'' JNull = Inr (JInt 1) \<and>
   py_get sample_stats ''pending_users'' JNull = Inr (JInt 3)"
proof -
  have "fst (should_update_cache sample_lib (sample_world None 0)) = Inr True"
    by (simp add: sample_world_stale)
  from fresh_counts [OF this sample_refresh] show ?thesis
    by (simp add: sample_counts)
qed

text \<open>
  C6. A snapshot that a refresh has stored in the cache file is returned unchanged, field
  for field and in the same order (the value is a list of pairs, its series are lists), by
  every later call made while no more than 300 seconds have passed, whatever the database
  does then. The library is assumed to read back what it wrote: \<^verbatim>\<open>json.load\<close> the text of
  \<^verbatim>\<open>json.dump\<close> for this snapshot, \<^verbatim>\<open>fromisoformat\<close> the text of \<^verbatim>\<open>isoformat\<close> for its timestamp.
\<close>

theorem cache_round_trip:
  assumes "fst (should_update_cache L w) = Inr True"
    and "get_migration_stats L db w = (Inr stats, w')"
    and "json_loads L (json_dumps L stats) = Some stats"
    and "fromisoformat L (isoformat L (Naive (clock w))) = Some (Naive (clock w))"
    and "later - clock w \<le> 300 * 1000000"
  shows "get_migration_stats L db' (w'\<lparr>clock := later\<rparr>) = (Inr stats, w'\<lparr>clock := later\<rparr>)"
proof -
  define kvs where "kvs = [(''total_users'', JInt (count_total db)),
                (''migrated_users'', JInt (count_migrated db)),
                (''pending_users'', JInt (count_total db - count_migrated db)),
                (''migration_rate'',
                   if 0 < count_total db
                   then JFloat (py_round (py_mul (binary64 (of_int (count_migrated db) /
                                  of_int (count_total db))) 100) 2)
                   else JInt 0),
                (''hourly_data'', JArr (map hourly_item (hourly_rows db))),
                (''daily_data'', JArr (map daily_item (daily_rows db))),
                (''last_update'', JStr (isoformat L (Naive (clock w))))]"
  from get_migration_stats_fresh_result [OF assms(1,2)]
  have s: "stats = JObj kvs"
    and w': "cache_file w' = Some (json_dumps L stats)" "clock w' = clock w"
    by (simp_all add: make_stats_value kvs_def)
  let ?w = "w'\<lparr>clock := later\<rparr>"
  have c: "cache_file ?w = Some (json_dumps L stats)" by (simp add: w')
  have j: "json_loads L (json_dumps L stats) = Some (JObj kvs)"
    using assms(3) s by simp
  have k: "map_of kvs ''last_update'' = Some (JStr (isoformat L (Naive (clock w))))"
    by (simp add: kvs_def)
  have "should_update_cache L ?w = (Inr (300000000 < clock ?w - clock w), ?w)"
    using c j k assms(4) by (rule should_update_cache_naive)
  then have "fst (should_update_cache L ?w) = Inr False"
    using assms(5) by simp
  then show ?thesis
    using c assms(3) by (rule get_migration_stats_hit)
qed

theorem cache_round_trip_witness:
  "get_migration_stats sample_lib (sample_db\<lparr>connect_fails := True\<rparr>)
     \<lparr>cache_file = Some (json_dumps sample_lib sample_stats), clock = 300000000, open_conns = 0,
        open_cursors = 0,
        db_log = [Connect, OpenCursor, Execute CountTotal, Execute CountMigrated,
             Execute HourlySeries, Execute DailySeries, CloseCursor, CloseConnection]\<rparr>
   = (Inr sample_stats,
      \<lparr>cache_file = Some (json_dumps sample_lib sample_stats), clock = 300000000, open_conns = 0,
        open_cursors = 0,
        db_log = [Connect, OpenCursor, Execute CountTotal, Execute CountMigrated,
             Execute HourlySeries, Execute DailySeries, CloseCursor, CloseConnection]\<rparr>)"
proof -
  have 1: "fst (should_update_cache sample_lib (sample_world None 0)) = Inr True"
    by (simp add: sample_world_stale)
  have 4: "fromisoformat sample_lib (isoformat sample_lib (Naive (clock (sample_world None 0))))
             = Some (Naive (clock (sample_world None 0)))"
    using sample_iso_round_trip by (simp add: sample_world_def)
  have 5: "300000000 - clock (sample_world None 0) \<le> 300 * 1000000"
    by (simp add: sample_world_def)
  from cache_round_trip [OF 1 sample_refresh sample_round_trip 4 5,
      of "sample_db\<lparr>connect_fails := True\<rparr>"]
  show ?thesis by simp
qed

text \<open>
  C7. On every path of \<open>get_migration_stats\<close> (a cache hit, a normal refresh, the failure of
  any query, the failure to open the connection, an exception of the staleness check) the
  numbers of open connections and of open cursors are the same after the call as before
  it: what the call opened it has closed when control leaves it.
\<close>

theorem connection_released:
  "open_conns (snd (get_migration_stats L db w)) = open_conns w \<and>
   open_cursors (snd (get_migration_stats L db w)) = open_cursors w"
proof -
  obtain r w1 where s: "should_update_cache L w = (r, w1)"
    by (cases "should_update_cache L w")
  then have w1: "w1 = w" using should_update_cache_world [of L w] by simp
  show ?thesis
  proof (cases r)
    case (Inl e)
    then show ?thesis by (simp add: get_migration_stats_def s w1)
  next
    case (Inr stale)
    show ?thesis
    proof (cases stale)
      case False
      then show ?thesis
        by (simp add: get_migration_stats_def s w1 Inr load_cache_def read_cache_file_def
            split: option.split)
    next
      case True
      then have st: "fst (should_update_cache L w) = Inr True" by (simp add: s Inr)
      show ?thesis
      proof (cases "connect_fails db")
        case True
        then show ?thesis
          by (simp add: get_migration_stats_stale [OF st] try_block_def get_db_connection_def
              Let_def finally_block_def)
      next
        case False
        define w2 where "w2 = conn_cursor (w\<lparr>db_log := db_log w @ [Connect],
                                      open_conns := Suc (open_conns w)\<rparr>)"
        obtain r' w3 where f: "fetch_and_store L db w2 = (r', w3)"
          by (cases "fetch_and_store L db w2")
        have "open_conns w3 = open_conns w2 \<and> open_cursors w3 = open_cursors w2"
          using fetch_and_store_resources [of L db w2] by (simp add: f)
        then have "open_conns w3 = Suc (open_conns w)" "open_cursors w3 = Suc (open_cursors w)"
          by (simp_all add: w2_def conn_cursor_def)
        then show ?thesis
          using False
          by (simp add: get_migration_stats_stale [OF st] try_block_def get_db_connection_def
              Let_def finally_block_def w2_def [symmetric] f cursor_close_def conn_close_def)
      qed
    qed
  qed
qed

theorem connection_released_witness:
  "open_conns (snd (get_migration_stats sample_lib sample_db (sample_world None 0))) = 0 \<and>
   open_cursors (snd (get_migration_stats sample_lib sample_db (sample_world None 0))) = 0 \<and>
   open_conns (snd (get_migration_stats sample_lib
       (sample_db\<lparr>failing_queries := {HourlySeries}\<rparr>) (sample_world None 0))) = 0 \<and>
   open_cursors (snd (get_migration_stats sample_lib
       (sample_db\<lparr>failing_queries := {HourlySeries}\<rparr>) (sample_world None 0))) = 0 \<and>
   open_conns (snd (get_migration_stats sample_lib
       (sample_db\<lparr>connect_fails := True\<rparr>) (sample_world None 0))) = 0 \<and>
   open_cursors (snd (get_migration_stats sample_lib
       (sample_db\<lparr>connect_fails := True\<rparr>) (sample_world None 0))) = 0"
  using connection_released [of sample_lib sample_db "sample_world None 0"]
    connection_released [of sample_lib "sample_db\<lparr>failing_queries := {HourlySeries}\<rparr>"
      "sample_world None 0"]
    connection_released [of sample_lib "sample_db\<lparr>connect_fails := True\<rparr>" "sample_world None 0"]
  by (simp add: sample_world_def)

text \<open>
  C8. The claim: when the cache is stale and the connection or a query fails, the failure
  reaches the caller as the database error, and the cache file is unchanged. The code does
  not do that when the connection cannot be opened: \<^verbatim>\<open>conn\<close> and \<^verbatim>\<open>cursor\<close> are assigned inside
  the \<^verbatim>\<open>try\<close> block, so the \<^verbatim>\<open>finally\<close> block reads the unassigned \<^verbatim>\<open>cursor\<close> and its
  \<^verbatim>\<open>UnboundLocalError\<close> replaces the error of the driver. This theorem describes that path
  (the cache file is indeed unchanged, only the connection attempt is logged).
\<close>

theorem connection_failure_masked:
  assumes "fst (should_update_cache L w) = Inr True" and "connect_fails db"
  shows "get_migration_stats L db w =
           (Inl UnboundLocalError, w\<lparr>db_log := db_log w @ [Connect]\<rparr>)"
  using assms(2)
  by (simp add: get_migration_stats_stale [OF assms(1)] try_block_def get_db_connection_def
      Let_def finally_block_def)

theorem connection_failure_masked_witness:
  "get_migration_stats sample_lib (sample_db\<lparr>connect_fails := True\<rparr>) (sample_world None 0) =
     (Inl UnboundLocalError, (sample_world None 0)\<lparr>db_log := [Connect]\<rparr>)"
proof -
  have 1: "fst (should_update_cache sample_lib (sample_world None 0)) = Inr True"
    by (simp add: sample_world_stale)
  have 2: "connect_fails (sample_db\<lparr>connect_fails := True\<rparr>)" by simp
  from connection_failure_masked [OF 1 2] show ?thesis by (simp add: sample_world_def)
qed

text \<open>
  C9. On a cache hit \<open>get_migration_stats\<close> returns exactly the value parsed from the cache
  file, whatever it is, with no validation and no change: the witness is a file whose
  object has none of the snapshot's counters.
\<close>

theorem cache_hit_verbatim:
  assumes "fst (should_update_cache L w) = Inr False"
    and "cache_file w = Some c" and "json_loads L c = Some v"
  shows "get_migration_stats L db w = (Inr v, w)"
  using assms by (rule get_migration_stats_hit)

theorem cache_hit_verbatim_witness:
  \<open>get_migration_stats sample_lib sample_db
       (sample_world (Some ''{"last_update": "2024-01-01T12:00:00"}'') 299000000)
     = (Inr (JObj [(''last_update'', JStr ''2024-01-01T12:00:00'')]),
        sample_world (Some ''{"last_update": "2024-01-01T12:00:00"}'') 299000000) \<and>
   py_get (JObj [(''last_update'', JStr ''2024-01-01T12:00:00'')]) ''total_users'' JNull
     = Inr JNull\<close>
proof -
  have 1: \<open>fst (should_update_cache sample_lib
       (sample_world (Some ''{"last_update": "2024-01-01T12:00:00"}'') 299000000)) = Inr False\<close>
    by (simp add: sample_hit)
  have 2: \<open>cache_file (sample_world (Some ''{"last_update": "2024-01-01T12:00:00"}'') 299000000)
             = Some ''{"last_update": "2024-01-01T12:00:00"}''\<close>
    by (simp add: sample_world_def)
  have 3: \<open>json_loads sample_lib ''{"last_update": "2024-01-01T12:00:00"}''
             = Some (JObj [(''last_update'', JStr ''2024-01-01T12:00:00'')])\<close>
    by (simp add: sample_lib_def sample_json_def)
  from cache_hit_verbatim [OF 1 2 3, of sample_db] show ?thesis
    by (simp add: py_get_def)
qed

text \<open>
  C10. \<open>should_update_cache\<close> changes nothing: the world after the call, and in particular the
  cache file's existence and content, is the world before it, whether the call returns
  true, returns false or raises.
\<close>

theorem should_update_cache_frame:
  "snd (should_update_cache L w) = w \<and>
   cache_file (snd (should_update_cache L w)) = cache_file w"
  by (simp add: should_update_cache_world)

theorem should_update_cache_frame_witness:
  \<open>snd (should_update_cache sample_lib (sample_world None 0)) = sample_world None 0 \<and>
   snd (should_update_cache sample_lib (sample_world (Some ''{"last_update": 5}'') 0))
     = sample_world (Some ''{"last_update": 5}'') 0 \<and>
   snd (should_update_cache sample_lib (sample_world (Some ''}'') 0))
     = sample_world (Some ''}'') 0\<close>
  using should_update_cache_frame [of sample_lib "sample_world None 0"]
    should_update_cache_frame [of sample_lib \<open>sample_world (Some ''{"last_update": 5}'') 0\<close>]
    should_update_cache_frame [of sample_lib "sample_world (Some ''}'') 0"]
  by simp

section \<open>Further properties\<close>

text \<open>
  X1. Where \<open>should_update_cache\<close> does fail open: it returns true, without raising, when
  the cache file is absent, when its content is not JSON, when the JSON object has no
  \<^verbatim>\<open>last_update\<close> key (the default \<^verbatim>\<open>''\<close> is not an ISO timestamp), and when \<^verbatim>\<open>last_update\<close> is a
  string that is not an ISO timestamp.
\<close>

theorem fail_open:
  "(cache_file w = None \<longrightarrow> should_update_cache L w = (Inr True, w)) \<and>
   (cache_file w = Some c \<and> json_loads L c = None
      \<longrightarrow> should_update_cache L w = (Inr True, w)) \<and>
   (cache_file w = Some c \<and> json_loads L c = Some (JObj kvs) \<and>
    map_of kvs ''last_update'' = None \<and> fromisoformat L [] = None
      \<longrightarrow> should_update_cache L w = (Inr True, w)) \<and>
   (cache_file w = Some c \<and> json_loads L c = Some (JObj kvs) \<and>
    map_of kvs ''last_update'' = Some (JStr s) \<and> fromisoformat L s = None
      \<longrightarrow> should_update_cache L w = (Inr True, w))"
proof (intro conjI impI)
  assume "cache_file w = None"
  then show "should_update_cache L w = (Inr True, w)" by (rule should_update_cache_absent)
next
  assume "cache_file w = Some c \<and> json_loads L c = None"
  then show "should_update_cache L w = (Inr True, w)"
    by (simp add: should_update_cache_undecodable)
next
  assume a: "cache_file w = Some c \<and> json_loads L c = Some (JObj kvs) \<and>
    map_of kvs ''last_update'' = None \<and> fromisoformat L [] = None"
  then have g: "py_get (JObj kvs) ''last_update'' (JStr []) = Inr (JStr [])"
    by (simp add: py_get_def)
  from a have c: "cache_file w = Some c" and j: "json_loads L c = Some (JObj kvs)" by simp_all
  show "should_update_cache L w = (Inr True, w)"
    using a by (simp add: should_update_cache_timestamp [OF c j g] datetime_fromisoformat_def
        caught_def)
next
  assume a: "cache_file w = Some c \<and> json_loads L c = Some (JObj kvs) \<and>
    map_of kvs ''last_update'' = Some (JStr s) \<and> fromisoformat L s = None"
  then have g: "py_get (JObj kvs) ''last_update'' (JStr []) = Inr (JStr s)"
    by (simp add: py_get_def)
  from a have c: "cache_file w = Some c" and j: "json_loads L c = Some (JObj kvs)" by simp_all
  show "should_update_cache L w = (Inr True, w)"
    using a by (simp add: should_update_cache_timestamp [OF c j g] datetime_fromisoformat_def
        caught_def)
qed

theorem fail_open_witness:
  \<open>should_update_cache sample_lib (sample_world None 0) = (Inr True, sample_world None 0) \<and>
   should_update_cache sample_lib (sample_world (Some ''{"last_upd'') 0)
     = (Inr True, sample_world (Some ''{"last_upd'') 0) \<and>
   should_update_cache sample_lib (sample_world (Some ''{}'') 0)
     = (Inr True, sample_world (Some ''{}'') 0) \<and>
   should_update_cache sample_lib (sample_world (Some ''{"last_update": "yesterday"}'') 0)
     = (Inr True, sample_world (Some ''{"last_update": "yesterday"}'') 0)\<close>
proof (intro conjI)
  show "should_update_cache sample_lib (sample_world None 0) = (Inr True, sample_world None 0)"
    using fail_open [where w = "sample_world None 0" and L = sample_lib, THEN conjunct1]
    by (simp add: sample_world_def)
  show \<open>should_update_cache sample_lib (sample_world (Some ''{"last_upd'') 0)
     = (Inr True, sample_world (Some ''{"last_upd'') 0)\<close>
    using fail_open [where w = \<open>sample_world (Some ''{"last_upd'') 0\<close> and L = sample_lib
        and c = \<open>''{"last_upd''\<close>, THEN conjunct2, THEN conjunct1]
    by (simp add: sample_world_def sample_lib_def sample_json_def)
  show \<open>should_update_cache sample_lib (sample_world (Some ''{}'') 0)
     = (Inr True, sample_world (Some ''{}'') 0)\<close>
    using fail_open [where w = \<open>sample_world (Some ''{}'') 0\<close> and L = sample_lib
        and c = \<open>''{}''\<close> and kvs = "[]", THEN conjunct2, THEN conjunct2, THEN conjunct1]
    by (simp add: sample_world_def sample_lib_def sample_json_def sample_timestamps_def)
  show \<open>should_update_cache sample_lib (sample_world (Some ''{"last_update": "yesterday"}'') 0)
     = (Inr True, sample_world (Some ''{"last_update": "yesterday"}'') 0)\<close>
    using fail_open [where w = \<open>sample_world (Some ''{"last_update": "yesterday"}'') 0\<close>
        and L = sample_lib and c = \<open>''{"last_update": "yesterday"}''\<close>
        and kvs = "[(''last_update'', JStr ''yesterday'')]" and s = "''yesterday''",
        THEN conjunct2, THEN conjunct2, THEN conjunct2]
    by (simp add: sample_world_def sample_lib_def sample_json_def sample_timestamps_def)
qed

text \<open>
  X2. When the cache is stale, the connection opens and one of the four queries fails, the
  error of the driver reaches the caller and the cache file is unchanged.
\<close>

theorem query_failure_propagates:
  assumes "fst (should_update_cache L w) = Inr True"
    and "\<not> connect_fails db" and "q \<in> failing_queries db"
  shows "fst (get_migration_stats L db w) = Inl MySQLError \<and>
         cache_file (snd (get_migration_stats L db w)) = cache_file w"
proof -
  define w1 where "w1 = conn_cursor (w\<lparr>db_log := db_log w @ [Connect],
                                      open_conns := Suc (open_conns w)\<rparr>)"
  obtain r w2 where f: "fetch_and_store L db w1 = (r, w2)"
    by (cases "fetch_and_store L db w1")
  have "r = Inl MySQLError" "cache_file w2 = cache_file w1"
    using fetch_and_store_query_fails [OF assms(3), of L w1] by (simp_all add: f)
  moreover have "cache_file w1 = cache_file w" by (simp add: w1_def conn_cursor_def)
  moreover have "get_migration_stats L db w = (r, conn_close (cursor_close w2))"
    using assms(2)
    by (simp add: get_migration_stats_stale [OF assms(1)] try_block_def get_db_connection_def
        Let_def finally_block_def w1_def [symmetric] f)
  ultimately show ?thesis by (simp add: cursor_close_def conn_close_def)
qed

theorem query_failure_propagates_witness:
  "get_migration_stats sample_lib (sample_db\<lparr>failing_queries := {HourlySeries}\<rparr>)
       (sample_world None 0)
     = (Inl MySQLError,
        (sample_world None 0)\<lparr>db_log := [Connect, OpenCursor, Execute CountTotal,
           Execute CountMigrated, Execute HourlySeries, CloseCursor, CloseConnection]\<rparr>)"
proof -
  have 1: "fst (should_update_cache sample_lib (sample_world None 0)) = Inr True"
    by (simp add: sample_world_stale)
  have 2: "\<not> connect_fails (sample_db\<lparr>failing_queries := {HourlySeries}\<rparr>)"
    by (simp add: sample_db_def)
  have 3: "HourlySeries \<in> failing_queries (sample_db\<lparr>failing_queries := {HourlySeries}\<rparr>)"
    by simp
  have "get_migration_stats sample_lib (sample_db\<lparr>failing_queries := {HourlySeries}\<rparr>)
       (sample_world None 0)
     = (Inl MySQLError,
        (sample_world None 0)\<lparr>db_log := [Connect, OpenCursor, Execute CountTotal,
           Execute CountMigrated, Execute HourlySeries, CloseCursor, CloseConnection]\<rparr>)"
    by code_simp
  with query_failure_propagates [OF 1 2 3] show ?thesis by simp
qed

end
